theory Spec2Isabelle
  imports Main "HOL-Library.Sublist"
begin

section \<open>Python values used by the two scripts\<close>

text \<open>
  Texts are modelled as lists of 7-bit ASCII characters, so that one character of a Python
  \<open>str\<close> is one byte of the file that holds it.  Uncaught Python exceptions are values of
  \<open>error\<close>.
\<close>

datatype error = FileNotFoundError | PermissionError | IndexError | ValueError

text \<open>\<open>s[i]\<close> for a Python sequence: negative indices count from the end, anything out of
  range raises \<open>IndexError\<close>.\<close>

definition py_getitem :: "'a list \<Rightarrow> int \<Rightarrow> error + 'a" where
  "py_getitem xs i =
     (if 0 \<le> i \<and> i < int (length xs) then Inr (xs ! nat i)
      else if i < 0 \<and> - int (length xs) \<le> i then Inr (xs ! nat (int (length xs) + i))
      else Inl IndexError)"

text \<open>\<open>range(a, b)\<close> over Python integers.\<close>

definition py_range :: "int \<Rightarrow> int \<Rightarrow> int list" where
  "py_range a b = map (\<lambda>k. a + int k) [0..<nat (b - a)]"

text \<open>\<open>s.removeprefix(p)\<close>.\<close>

definition py_removeprefix :: "string \<Rightarrow> string \<Rightarrow> string" where
  "py_removeprefix s p = (if prefix p s then drop (length p) s else s)"

subsection \<open>Strings\<close>

text \<open>The ASCII characters that \<open>str.isspace\<close> and \<open>str.strip\<close> count as whitespace.\<close>

definition is_space :: "char \<Rightarrow> bool" where
  "is_space c = (c \<in> set [CHR 0x09, CHR 0x0A, CHR 0x0B, CHR 0x0C, CHR 0x0D,
                           CHR 0x1C, CHR 0x1D, CHR 0x1E, CHR 0x1F, CHR 0x20])"

text \<open>\<open>s.isspace()\<close>: false on the empty string.\<close>

definition py_isspace :: "string \<Rightarrow> bool" where
  "py_isspace s = (s \<noteq> [] \<and> list_all is_space s)"

text \<open>\<open>s.strip()\<close>.\<close>

definition py_strip :: "string \<Rightarrow> string" where
  "py_strip s = rev (dropWhile is_space (rev (dropWhile is_space s)))"

text \<open>\<open>s.lower()\<close> on ASCII text.\<close>

definition lower_char :: "char \<Rightarrow> char" where
  "lower_char c =
     (case map_of (zip ''ABCDEFGHIJKLMNOPQRSTUVWXYZ'' ''abcdefghijklmnopqrstuvwxyz'') c of
        None \<Rightarrow> c
      | Some d \<Rightarrow> d)"

definition py_lower :: "string \<Rightarrow> string" where
  "py_lower s = map lower_char s"

text \<open>The scan behind \<open>s.find(sub)\<close> and \<open>s.index(sub)\<close>: the position of the leftmost
  occurrence of \<open>sub\<close> in \<open>s\<close>, counted from \<open>n\<close>.\<close>

fun find_from :: "string \<Rightarrow> string \<Rightarrow> nat \<Rightarrow> nat option" where
  "find_from sub [] n = (if sub = [] then Some n else None)"
| "find_from sub (c # cs) n = (if prefix sub (c # cs) then Some n else find_from sub cs (Suc n))"

text \<open>\<open>s.find(sub)\<close> answers \<open>-1\<close> when there is no occurrence; \<open>s.index(sub)\<close> raises
  \<open>ValueError\<close>.\<close>

definition py_find :: "string \<Rightarrow> string \<Rightarrow> int" where
  "py_find s sub = (case find_from sub s 0 of None \<Rightarrow> - 1 | Some i \<Rightarrow> int i)"

definition py_index :: "string \<Rightarrow> string \<Rightarrow> error + int" where
  "py_index s sub = (case find_from sub s 0 of None \<Rightarrow> Inl ValueError | Some i \<Rightarrow> Inr (int i))"

text \<open>Slices \<open>s[a:b]\<close> and \<open>s[a:]\<close>: a negative bound counts from the end, and every bound is
  clamped to the text.\<close>

definition clamp_bound :: "nat \<Rightarrow> int \<Rightarrow> nat" where
  "clamp_bound n i = (if i < 0 then nat (max 0 (int n + i)) else min n (nat i))"

definition py_slice :: "'a list \<Rightarrow> int \<Rightarrow> int \<Rightarrow> 'a list" where
  "py_slice s a b =
     (let lo = clamp_bound (length s) a; hi = clamp_bound (length s) b
      in take (hi - lo) (drop lo s))"

definition py_slice_from :: "'a list \<Rightarrow> int \<Rightarrow> 'a list" where
  "py_slice_from s a = drop (clamp_bound (length s) a) s"

text \<open>\<open>s.replace(old, new)\<close>: every occurrence of \<open>old\<close>, found from left to right without
  overlap, becomes \<open>new\<close>.  An empty \<open>old\<close> matches before every character and at the end.\<close>

fun replace_scan :: "string \<Rightarrow> string \<Rightarrow> string \<Rightarrow> string" where
  "replace_scan old new [] = []"
| "replace_scan old new (c # cs) =
     (if old \<noteq> [] \<and> prefix old (c # cs)
      then new @ replace_scan old new (drop (length old) (c # cs))
      else c # replace_scan old new cs)"

definition py_replace :: "string \<Rightarrow> string \<Rightarrow> string \<Rightarrow> string" where
  "py_replace s old new =
     (if old = [] then new @ concat (map (\<lambda>c. c # new) s) else replace_scan old new s)"

text \<open>\<open>sep.join(parts)\<close>.\<close>

fun join :: "'a list \<Rightarrow> 'a list list \<Rightarrow> 'a list" where
  "join sep [] = []"
| "join sep [x] = x"
| "join sep (x # y # ys) = x @ sep @ join sep (y # ys)"

subsection \<open>Lists and paths\<close>

text \<open>\<open>xs.index(x)\<close>: the first position of \<open>x\<close>, \<open>ValueError\<close> when it is absent.\<close>

fun index_from :: "'a list \<Rightarrow> 'a \<Rightarrow> nat \<Rightarrow> nat option" where
  "index_from [] x n = None"
| "index_from (y # ys) x n = (if y = x then Some n else index_from ys x (Suc n))"

definition py_list_index :: "'a list \<Rightarrow> 'a \<Rightarrow> error + int" where
  "py_list_index xs x = (case index_from xs x 0 of None \<Rightarrow> Inl ValueError | Some i \<Rightarrow> Inr (int i))"

text \<open>\<open>os.path.basename\<close>, \<open>os.path.dirname\<close> and \<open>os.path.join\<close> of \<open>posixpath\<close>.\<close>

definition basename :: "string \<Rightarrow> string" where
  "basename p = rev (takeWhile (\<lambda>c. c \<noteq> CHR ''/'') (rev p))"

definition dirname :: "string \<Rightarrow> string" where
  "dirname p =
     (let head = rev (dropWhile (\<lambda>c. c \<noteq> CHR ''/'') (rev p))
      in if head \<noteq> [] \<and> \<not> list_all (\<lambda>c. c = CHR ''/'') head
         then rev (dropWhile (\<lambda>c. c = CHR ''/'') (rev head))
         else head)"

definition path_join :: "string \<Rightarrow> string \<Rightarrow> string" where
  "path_join a b =
     (if prefix ''/'' b then b
      else if a = [] \<or> suffix ''/'' a then a @ b
      else a @ ''/'' @ b)"

section \<open>BitwiseTheoryParameterGenerator.py\<close>

text \<open>
  The script draws \<open>bits\<close> random digits.  The random source is the input of the model:
  \<open>rand n\<close> is the result of the \<open>n\<close>-th call of \<open>random.randint(0, 1)\<close> (\<open>True\<close> for 1).
\<close>

definition bits :: int where
  "bits = 64"

definition str_digit :: "bool \<Rightarrow> string" where
  "str_digit d = (if d then ''1'' else ''0'')"

text \<open>The first loop (lines 17 to 23): the state is the number of draws made so far,
  \<open>raw_numerical\<close> and \<open>unsigned_numerical\<close>.  The loop variable \<open>i\<close> is reset by the \<open>for\<close>
  statement, so the trailing \<open>i += 1\<close> has no effect.\<close>

fun digit_loop :: "(nat \<Rightarrow> bool) \<Rightarrow> int list \<Rightarrow> nat \<times> string \<times> string \<Rightarrow> nat \<times> string \<times> string" where
  "digit_loop rand [] st = st"
| "digit_loop rand (i # is) (n, raw_numerical, unsigned_numerical) =
     (let digit = str_digit (rand n);
          raw_numerical = raw_numerical @ digit;
          unsigned_numerical = (if i mod 8 = 0 then unsigned_numerical @ ''_'' else unsigned_numerical);
          unsigned_numerical = unsigned_numerical @ digit
      in digit_loop rand is (Suc n, raw_numerical, unsigned_numerical))"

text \<open>The inner loop of the second block (lines 30 and 31).\<close>

fun byte_digits :: "string \<Rightarrow> int list \<Rightarrow> string \<Rightarrow> error + string" where
  "byte_digits raw_numerical [] byte_array = Inr byte_array"
| "byte_digits raw_numerical (x # xs) byte_array =
     (case py_getitem raw_numerical x of
        Inl e \<Rightarrow> Inl e
      | Inr c \<Rightarrow> byte_digits raw_numerical xs (byte_array @ [c]))"

text \<open>The outer loop (lines 28 to 32).\<close>

fun byte_loop :: "string \<Rightarrow> int list \<Rightarrow> string \<Rightarrow> error + string" where
  "byte_loop raw_numerical [] byte_array = Inr byte_array"
| "byte_loop raw_numerical (i # is) byte_array =
     (case byte_digits raw_numerical
             (py_range (bits - ((i + 1) * 8)) (bits - ((i + 1) * 8) + 8))
             (byte_array @ '', 0b_'') of
        Inl e \<Rightarrow> Inl e
      | Inr byte_array' \<Rightarrow> byte_loop raw_numerical is byte_array')"

text \<open>The whole script: the two printed lines, the binary literal and the byte array.
  \<open>int(bits / 8)\<close> is exact for the three documented widths.\<close>

definition generator :: "(nat \<Rightarrow> bool) \<Rightarrow> error + string \<times> string" where
  "generator rand =
     (case digit_loop rand (py_range 0 bits) (0, '''', ''0b'') of
        (n, raw_numerical, unsigned_numerical) \<Rightarrow>
          (case byte_loop raw_numerical (py_range 0 (bits div 8)) '''' of
             Inl e \<Rightarrow> Inl e
           | Inr byte_array \<Rightarrow> Inr (unsigned_numerical, py_removeprefix byte_array '', '')))"

text \<open>The sequence of digits drawn by a run.\<close>

definition drawn :: "(nat \<Rightarrow> bool) \<Rightarrow> string" where
  "drawn rand = concat (map (\<lambda>n. str_digit (rand n)) [0..<nat bits])"

text \<open>Reading the printed literal back: its digits, without the prefix and the
  underscores.\<close>

definition literal_digits :: "string \<Rightarrow> string" where
  "literal_digits lit = filter (\<lambda>c. c \<noteq> CHR ''_'') (py_removeprefix lit ''0b'')"

section \<open>FileHeaders.py\<close>

subsection \<open>Constants\<close>

definition HEADER_START_TAG :: string where
  "HEADER_START_TAG = ''>>>HEADER_START<<<''"

definition HEADER_END_TAG :: string where
  "HEADER_END_TAG = ''>>>HEADER_END<<<''"

definition FOOTER_START_TAG :: string where
  "FOOTER_START_TAG = ''>>>FOOTER_START<<<''"

definition FOOTER_END_TAG :: string where
  "FOOTER_END_TAG = ''>>>FOOTER_END<<<''"

definition FILE_NAME_TAG :: string where
  "FILE_NAME_TAG = ''{FILE_NAME}''"

definition FOLDER_NAME_TAG :: string where
  "FOLDER_NAME_TAG = ''{FOLDER_NAME}''"

definition NO_HEADER_OR_FOOTER :: int where
  "NO_HEADER_OR_FOOTER = 0"

definition HAS_HEADER :: int where
  "HAS_HEADER = 1"

definition HAS_FOOTER :: int where
  "HAS_FOOTER = 2"

definition HAS_HEADER_AND_FOOTER :: int where
  "HAS_HEADER_AND_FOOTER = 4"

subsection \<open>The world the script runs in\<close>

text \<open>
  A file has a content and a flag saying whether this process may open it for reading and
  writing.  The world is the file system, the paths of the file objects that are open, and
  what has been printed.  Each \<open>print\<close> of the script is one \<open>message\<close>:
  \<^item> \<open>Help\<close>: the text of \<open>print_header_file_help\<close>;
  \<^item> \<open>Listed p\<close>: a target path, printed before the first question (line 133);
  \<^item> \<open>NotFound f\<close>: \<open>file f not found.\<close> (line 143);
  \<^item> \<open>NoHeaderOrFooter\<close>: \<open>NO_HEADER_OR_FOOTER_MESSAGE\<close>;
  \<^item> \<open>Preview h f\<close>: the header and footer shown before the second question, \<open>None\<close>
    where the script prints that none was given (lines 203 to 213);
  \<^item> \<open>Skipped p\<close>: \<open>Skipped p: Insufficiant Permissions ...\<close> (line 45);
  \<^item> \<open>Added p\<close>: \<open>Added Header/Footer to p ...\<close> (line 72).
\<close>

record file_entry =
  permitted :: bool
  data :: string

datatype message =
    Help
  | Listed string
  | NotFound string
  | NoHeaderOrFooter
  | Preview "string option" "string option"
  | Skipped string
  | Added string

record world =
  fs :: "string \<Rightarrow> file_entry option"
  handles :: "string list"
  printed :: "message list"

definition py_print :: "message \<Rightarrow> world \<Rightarrow> world" where
  "py_print m w = w\<lparr>printed := printed w @ [m]\<rparr>"

text \<open>\<open>open(p, ...)\<close>: the file object stays in \<open>handles\<close> until it is closed.  The
  script opens its files in text mode, which turns each carriage return and line break
  pair into a line break when reading; the model reads the content as it is stored, so it
  covers files that hold no carriage return.\<close>

definition py_open :: "string \<Rightarrow> world \<Rightarrow> error + file_entry \<times> world" where
  "py_open p w =
     (case fs w p of
        None \<Rightarrow> Inl FileNotFoundError
      | Some e \<Rightarrow>
          if permitted e then Inr (e, w\<lparr>handles := handles w @ [p]\<rparr>) else Inl PermissionError)"

text \<open>\<open>f.seek(0)\<close> followed by \<open>f.write(text)\<close> on a file opened with \<open>'r+'\<close>: the text
  replaces the bytes at the start of the file, and what lies beyond it stays.\<close>

definition write_at_start :: "string \<Rightarrow> string \<Rightarrow> string" where
  "write_at_start old text = text @ drop (length text) old"

definition seek0_write :: "string \<Rightarrow> string \<Rightarrow> world \<Rightarrow> world" where
  "seek0_write p text w =
     (case fs w p of
        None \<Rightarrow> w
      | Some e \<Rightarrow> w\<lparr>fs := (fs w)(p \<mapsto> e\<lparr>data := write_at_start (data e) text\<rparr>)\<rparr>)"

definition py_close :: "string \<Rightarrow> world \<Rightarrow> world" where
  "py_close p w = w\<lparr>handles := remove1 p (handles w)\<rparr>"

subsection \<open>\<open>apply_footers_and_headers\<close>\<close>

text \<open>Lines 48 to 55: the header and the footer with the tags filled in.  \<open>header\<close> and
  \<open>footer\<close> are the module's globals, passed as parameters.\<close>

definition tagged :: "string list \<Rightarrow> string list \<Rightarrow> bool \<Rightarrow> string \<Rightarrow> string \<Rightarrow> string
    \<Rightarrow> error + string \<times> string" where
  "tagged files paths disable_tags header footer file_path =
     (if disable_tags then Inr (header, footer)
      else
        (case py_list_index paths file_path of
           Inl e \<Rightarrow> Inl e
         | Inr i \<Rightarrow>
             (case py_getitem files i of
                Inl e \<Rightarrow> Inl e
              | Inr file_name \<Rightarrow>
                  (let tagged_header = py_replace header FILE_NAME_TAG file_name;
                       tagged_footer = py_replace footer FILE_NAME_TAG file_name;
                       tagged_header = py_replace tagged_header FOLDER_NAME_TAG (basename (dirname file_path));
                       tagged_footer = py_replace tagged_footer FOLDER_NAME_TAG (basename (dirname file_path))
                   in Inr (tagged_header, tagged_footer)))))"

text \<open>Lines 60 to 70: which branch of the \<open>if\<close>/\<open>elif\<close> chain is taken.  The source gives the
  branches no names; they are named here after what each one concludes about the file.\<close>

datatype detection = AlreadyPresent | FooterOnlyPresent | HeaderOnlyPresent | NeitherPresent

definition detect :: "string \<Rightarrow> string \<Rightarrow> string \<Rightarrow> detection" where
  "detect content tagged_header tagged_footer =
     (if py_find content tagged_header = 0
         \<and> py_find content tagged_footer = int (length content) - int (length tagged_footer)
         \<and> content \<noteq> []
      then AlreadyPresent
      else if py_find content tagged_footer = int (length content) - int (length tagged_footer)
         \<and> content \<noteq> [] \<and> tagged_header \<noteq> []
      then FooterOnlyPresent
      else if py_find content tagged_header = 0 \<and> tagged_footer \<noteq> []
      then HeaderOnlyPresent
      else NeitherPresent)"

text \<open>The text each branch writes; the first branch writes nothing.\<close>

definition new_content :: "detection \<Rightarrow> string \<Rightarrow> string \<Rightarrow> string \<Rightarrow> string option" where
  "new_content d content tagged_header tagged_footer =
     (case d of
        AlreadyPresent \<Rightarrow> None
      | FooterOnlyPresent \<Rightarrow> Some (tagged_header @ content)
      | HeaderOnlyPresent \<Rightarrow> Some (content @ tagged_footer)
      | NeitherPresent \<Rightarrow> Some (tagged_header @ content @ tagged_footer))"

text \<open>Lines 72 and 73, which end an iteration that was not left by \<open>continue\<close>.\<close>

definition report_and_close :: "string \<Rightarrow> world \<Rightarrow> world" where
  "report_and_close file_path w = py_close file_path (py_print (Added file_path) w)"

text \<open>The body of the loop (lines 42 to 73) for one path.  An exception that nothing catches
  ends the run: it is returned with the world as it is then.\<close>

definition process_file :: "string list \<Rightarrow> string list \<Rightarrow> bool \<Rightarrow> bool \<Rightarrow> string \<Rightarrow> string
    \<Rightarrow> string \<Rightarrow> world \<Rightarrow> error \<times> world + world" where
  "process_file files paths disable_tags detect_header header footer file_path w =
     (case py_open file_path w of
        Inl e \<Rightarrow>
          (case e of
             PermissionError \<Rightarrow> Inr (py_print (Skipped file_path) w)
           | _ \<Rightarrow> Inl (e, w))
      | Inr (current_file, w1) \<Rightarrow>
          (case tagged files paths disable_tags header footer file_path of
             Inl e \<Rightarrow> Inl (e, w1)
           | Inr (tagged_header, tagged_footer) \<Rightarrow>
               (let content = py_strip (data current_file)
                in if detect_header
                   then
                     (case new_content (detect content tagged_header tagged_footer)
                             content tagged_header tagged_footer of
                        None \<Rightarrow> Inr w1
                      | Some text \<Rightarrow> Inr (report_and_close file_path (seek0_write file_path text w1)))
                   else Inr (report_and_close file_path w1))))"

text \<open>The \<open>for\<close> loop over the paths.\<close>

fun for_each_path :: "(string \<Rightarrow> world \<Rightarrow> error \<times> world + world) \<Rightarrow> string list \<Rightarrow> world
    \<Rightarrow> error \<times> world + world" where
  "for_each_path body [] w = Inr w"
| "for_each_path body (file_path # rest) w =
     (case body file_path w of
        Inl failure \<Rightarrow> Inl failure
      | Inr w' \<Rightarrow> for_each_path body rest w')"

definition apply_footers_and_headers :: "string list \<Rightarrow> string list \<Rightarrow> bool \<Rightarrow> bool \<Rightarrow> string
    \<Rightarrow> string \<Rightarrow> world \<Rightarrow> error \<times> world + world" where
  "apply_footers_and_headers files paths disable_tags detect_header header footer w =
     for_each_path (process_file files paths disable_tags detect_header header footer) paths w"

subsection \<open>The module-level script\<close>

text \<open>The command line, as \<open>argparse\<close> hands it over.\<close>

record args =
  header_file_help :: bool
  recursive :: bool
  whitespace :: bool
  disable_tags :: bool
  detect_header :: bool
  top_text :: string
  bottom_text :: string
  directory :: string
  header_file :: string
  extension :: string

text \<open>
  What the script reads from its surroundings: the directories and file names that
  \<open>os.walk(dir)\<close> yields, the names that \<open>os.scandir(dir)\<close> yields, the answers typed at the two
  questions, and \<open>sys.argv[0]\<close>.
\<close>

record environment =
  walk :: "(string \<times> string list) list"
  scandir :: "string list"
  first_answer :: string
  second_answer :: string
  argv0 :: string

text \<open>How a run ends: it reaches the end of the script, it calls \<open>sys.exit()\<close>, or an
  exception is not caught.\<close>

datatype outcome = Finished | Exited | Uncaught error

text \<open>Lines 100 to 112: \<open>files\<close> and \<open>paths\<close> after the scan.\<close>

definition scanned :: "args \<Rightarrow> environment \<Rightarrow> string list \<times> string list" where
  "scanned a env =
     (if recursive a
      then ([''''] @ concat (map (\<lambda>(current_directory, current_files). current_files) (walk env)),
            [''''] @ concat (map (\<lambda>(current_directory, current_files).
                                   map (path_join current_directory) current_files) (walk env)))
      else ([''''] @ scandir env, [''''] @ scandir env))"

text \<open>Lines 114 to 130, for one of the two lists.\<close>

definition has_extension :: "string \<Rightarrow> string \<Rightarrow> bool" where
  "has_extension ext file = (py_slice_from file (int (length file) - int (length ext)) = ext)"

definition valid :: "string \<Rightarrow> string list \<Rightarrow> string list" where
  "valid ext xs = remove1 '''' ([''''] @ filter (has_extension ext) xs)"

text \<open>Lines 136 and 221: the answer is neither yes nor empty.\<close>

definition declined :: "string \<Rightarrow> bool" where
  "declined yn = (py_lower yn \<noteq> ''y'' \<and> yn \<noteq> '''')"

text \<open>Lines 150 and 155: the text between a start tag and an end tag, one character after the
  first and one before the second left out.  \<open>ValueError\<close> when a tag is missing.\<close>

definition extract_block :: "string \<Rightarrow> string \<Rightarrow> string \<Rightarrow> error + string" where
  "extract_block content start_tag end_tag =
     (case py_index content start_tag of
        Inl e \<Rightarrow> Inl e
      | Inr i \<Rightarrow>
          (case py_index content end_tag of
             Inl e \<Rightarrow> Inl e
           | Inr j \<Rightarrow> Inr (py_slice content (i + int (length start_tag) + 1) (j - 1))))"

text \<open>Lines 146 to 167.  The state is \<open>(header, footer, has_header_footer)\<close>; \<open>Inl\<close> is the
  message printed before \<open>sys.exit()\<close>.\<close>

definition parse_header_file :: "string \<Rightarrow> string \<times> string \<times> int \<Rightarrow> message + string \<times> string \<times> int" where
  "parse_header_file content st =
     (case st of (header, footer, has_header_footer) \<Rightarrow>
        (let (header, has_header_footer) =
               (case extract_block content HEADER_START_TAG HEADER_END_TAG of
                  Inl e \<Rightarrow> (header, HAS_FOOTER)
                | Inr h \<Rightarrow> (h, has_header_footer))
         in case extract_block content FOOTER_START_TAG FOOTER_END_TAG of
              Inl e \<Rightarrow>
                if has_header_footer = HAS_FOOTER then Inl NoHeaderOrFooter
                else Inr (header, footer, HAS_HEADER)
            | Inr f \<Rightarrow>
                Inr (header, f,
                     if has_header_footer = - 1 then HAS_HEADER_AND_FOOTER else has_header_footer)))"

text \<open>Lines 172 to 183.\<close>

definition whitespace_policy :: "bool \<Rightarrow> string \<times> string \<times> int \<Rightarrow> message + string \<times> string \<times> int" where
  "whitespace_policy allow st =
     (case st of (header, footer, has_header_footer) \<Rightarrow>
        if allow then Inr st
        else
          (let (header, has_header_footer) =
                 (if py_isspace header then ('''', HAS_FOOTER) else (header, has_header_footer))
           in if py_isspace footer
              then (if has_header_footer = HAS_FOOTER then Inl NoHeaderOrFooter
                    else Inr (header, '''', HAS_HEADER))
              else Inr (header, footer, has_header_footer)))"

text \<open>Lines 186 to 200.\<close>

definition empty_check :: "string \<times> string \<times> int \<Rightarrow> message + string \<times> string \<times> int" where
  "empty_check st =
     (case st of (header, footer, has_header_footer) \<Rightarrow>
        if header = '''' \<and> footer = '''' then Inl NoHeaderOrFooter
        else
          (let has_header_footer = (if header = '''' then HAS_FOOTER else has_header_footer)
           in if footer = ''''
              then (if has_header_footer = HAS_FOOTER then Inl NoHeaderOrFooter
                    else Inr (header, footer, HAS_HEADER))
              else Inr (header, footer,
                        if has_header_footer = - 1 then HAS_HEADER_AND_FOOTER else has_header_footer)))"

text \<open>Lines 139 to 200: the header and footer the run will use, or how the run ends before
  it has any.  The file object of the header file is never closed.\<close>

definition load_spec :: "args \<Rightarrow> world \<Rightarrow> outcome \<times> world + (string \<times> string \<times> int) \<times> world" where
  "load_spec a w =
     (case (if header_file a = '''' then Inr ((top_text a, bottom_text a, - 1), w)
            else
              (case py_open (header_file a) w of
                 Inl e \<Rightarrow>
                   (case e of
                      FileNotFoundError \<Rightarrow> Inl (Exited, py_print (NotFound (header_file a)) w)
                    | _ \<Rightarrow> Inl (Uncaught e, w))
               | Inr (current_file, w1) \<Rightarrow>
                   (case parse_header_file (data current_file) (top_text a, bottom_text a, - 1) of
                      Inl m \<Rightarrow> Inl (Exited, py_print m w1)
                    | Inr st \<Rightarrow> Inr (st, w1)))) of
        Inl stop \<Rightarrow> Inl stop
      | Inr (st, w1) \<Rightarrow>
          (case whitespace_policy (whitespace a) st of
             Inl m \<Rightarrow> Inl (Exited, py_print m w1)
           | Inr st1 \<Rightarrow>
               (case empty_check st1 of
                  Inl m \<Rightarrow> Inl (Exited, py_print m w1)
                | Inr st2 \<Rightarrow> Inr (st2, w1))))"

text \<open>Lines 203 to 213.\<close>

definition preview :: "string \<times> string \<times> int \<Rightarrow> world \<Rightarrow> world" where
  "preview st w =
     (case st of (header, footer, has_header_footer) \<Rightarrow>
        if has_header_footer = HAS_HEADER_AND_FOOTER then py_print (Preview (Some header) (Some footer)) w
        else if has_header_footer = HAS_HEADER then py_print (Preview (Some header) None) w
        else if has_header_footer = HAS_FOOTER then py_print (Preview None (Some footer)) w
        else w)"

text \<open>Lines 224 to 240: the script and the header file are taken out of the lists.\<close>

definition without_self :: "args \<Rightarrow> environment \<Rightarrow> string list \<times> string list \<Rightarrow> string list \<times> string list" where
  "without_self a env fp =
     (case fp of (files, paths) \<Rightarrow>
        (let files = remove1 (basename (argv0 env)) files;
             files = remove1 (header_file a) files;
             paths = remove1 (basename (argv0 env)) paths;
             paths = remove1 (header_file a) paths;
             paths = remove1 (path_join (directory a) (basename (argv0 env))) paths;
             paths = remove1 (path_join (directory a) (header_file a)) paths
         in (files, paths)))"

text \<open>The script from line 91 to the end.\<close>

definition main :: "args \<Rightarrow> environment \<Rightarrow> world \<Rightarrow> outcome \<times> world" where
  "main a env w =
     (if header_file_help a then (Exited, py_print Help w)
      else
        (let (files, paths) = scanned a env;
             files = valid (extension a) files;
             paths = valid (extension a) paths;
             w1 = foldl (\<lambda>w path. py_print (Listed path) w) w paths
         in if declined (first_answer env) then (Exited, w1)
            else
              (case load_spec a w1 of
                 Inl stop \<Rightarrow> stop
               | Inr ((header, footer, has_header_footer), w2) \<Rightarrow>
                   (let w3 = preview (header, footer, has_header_footer) w2;
                        header = (if header \<noteq> '''' then header @ ''\<newline>'' else header);
                        footer = (if footer \<noteq> '''' then ''\<newline>'' @ footer else footer)
                    in if declined (second_answer env) then (Exited, w3)
                       else
                         (case without_self a env (files, paths) of (files, paths) \<Rightarrow>
                            (case apply_footers_and_headers files paths (disable_tags a)
                                    (detect_header a) header footer w3 of
                               Inl (e, w4) \<Rightarrow> (Uncaught e, w4)
                             | Inr w4 \<Rightarrow> (Finished, w4)))))))"

subsection \<open>Observing a run\<close>

text \<open>The world a run of the loop ends in, whether or not an exception ended it, and the
  content of a file in a world.\<close>

definition final_world :: "error \<times> world + world \<Rightarrow> world" where
  "final_world r = (case r of Inl (e, w) \<Rightarrow> w | Inr w \<Rightarrow> w)"

definition text_of :: "world \<Rightarrow> string \<Rightarrow> string option" where
  "text_of w p = map_option data (fs w p)"

text \<open>A world with the given files, nothing open and nothing printed; a file this process
  may open, and one it may not.\<close>

definition world_of :: "(string \<times> file_entry) list \<Rightarrow> world" where
  "world_of entries = \<lparr>fs = map_of entries, handles = [], printed = []\<rparr>"

definition accessible :: "string \<Rightarrow> file_entry" where
  "accessible d = \<lparr>permitted = True, data = d\<rparr>"

definition denied :: "string \<Rightarrow> file_entry" where
  "denied d = \<lparr>permitted = False, data = d\<rparr>"

text \<open>The command line \<open>FileHeaders.py [-o] -t T -b B [-f HF] -e .txt\<close>, run in a directory
  where \<open>os.scandir\<close> finds the given names, with \<open>y\<close> typed at both questions.\<close>

definition command_line :: "bool \<Rightarrow> string \<Rightarrow> string \<Rightarrow> string \<Rightarrow> args" where
  "command_line o_flag t b hf =
     \<lparr>header_file_help = False, recursive = False, whitespace = False, disable_tags = False,
      detect_header = o_flag, top_text = t, bottom_text = b, directory = ''./'',
      header_file = hf, extension = ''.txt''\<rparr>"

definition confirmed_in :: "string list \<Rightarrow> environment" where
  "confirmed_in names =
     \<lparr>walk = [], scandir = names, first_answer = ''y'', second_answer = ''y'',
      argv0 = ''FileHeaders.py''\<rparr>"

text \<open>What the specification asks of the marker lines of a header file: a block is a start
  tag, a line break, the text, a line break and the end tag, and neither tag occurs in the
  file before its marker line.\<close>

definition block :: "string \<Rightarrow> string \<Rightarrow> string \<Rightarrow> string \<Rightarrow> string \<Rightarrow> string" where
  "block start_tag end_tag before body after =
     before @ start_tag @ ''\<newline>'' @ body @ ''\<newline>'' @ end_tag @ after"

definition first_marks :: "string \<Rightarrow> string \<Rightarrow> string \<Rightarrow> string \<Rightarrow> bool" where
  "first_marks start_tag end_tag before body =
     (\<not> sublist start_tag (before @ butlast start_tag)
      \<and> \<not> sublist end_tag (before @ start_tag @ ''\<newline>'' @ body @ ''\<newline>'' @ butlast end_tag))"

definition both_present :: "string \<Rightarrow> string \<Rightarrow> string \<Rightarrow> bool" where
  "both_present start_tag end_tag content = (sublist start_tag content \<and> sublist end_tag content)"

section \<open>Properties of the bit-pattern generator\<close>

lemma upt_shift: "[n..<n + Suc k] = n # [Suc n..<Suc n + k]"
  by (simp add: upt_conv_Cons del: upt_Suc)

lemma digit_loop_raw:
  "digit_loop rand is (n, raw, uns) = (n', raw', uns') \<Longrightarrow>
     n' = n + length is \<and> raw' = raw @ concat (map (\<lambda>k. str_digit (rand k)) [n..<n + length is])
     \<and> filter (\<lambda>c. c \<noteq> CHR ''_'') uns' = filter (\<lambda>c. c \<noteq> CHR ''_'') uns @ concat (map (\<lambda>k. str_digit (rand k)) [n..<n + length is])
     \<and> take (length uns) uns' = uns"
proof (induction "is" arbitrary: n raw uns)
  case Nil
  then show ?case by simp
next
  case (Cons i "is")
  let ?d = "str_digit (rand n)"
  let ?u = "(if i mod 8 = 0 then uns @ ''_'' else uns) @ ?d"
  have step: "digit_loop rand is (Suc n, raw @ ?d, ?u) = (n', raw', uns')"
    using Cons.prems by (simp add: Let_def)
  have f: "filter (\<lambda>c. c \<noteq> CHR ''_'') ?u = filter (\<lambda>c. c \<noteq> CHR ''_'') uns @ ?d"
    by (simp add: str_digit_def)
  have t: "take (length uns) ?u = uns"
    by simp
  from Cons.IH[OF step] have ih: "n' = Suc n + length is"
    "raw' = (raw @ ?d) @ concat (map (\<lambda>k. str_digit (rand k)) [Suc n..<Suc n + length is])"
    "filter (\<lambda>c. c \<noteq> CHR ''_'') uns' = filter (\<lambda>c. c \<noteq> CHR ''_'') ?u @ concat (map (\<lambda>k. str_digit (rand k)) [Suc n..<Suc n + length is])"
    "take (length ?u) uns' = ?u"
    by blast+
  have "take (length uns) uns' = take (length uns) (take (length ?u) uns')"
    by (simp add: min_def)
  also have "\<dots> = uns" using ih(4) t by simp
  finally have t': "take (length uns) uns' = uns" .
  have l: "length (i # is) = Suc (length is)" by simp
  show ?case
    unfolding l upt_shift using ih(1,2,3) t' f by simp
qed

lemma byte_digits_take:
  "0 \<le> a \<Longrightarrow> nat a + j + m \<le> length raw \<Longrightarrow>
   byte_digits raw (map (\<lambda>k. a + int k) [j..<j + m]) acc = Inr (acc @ take m (drop (nat a + j) raw))"
proof (induction m arbitrary: j acc)
  case 0
  then show ?case by simp
next
  case (Suc m)
  have "nat (a + int j) = nat a + j" using Suc.prems by (simp add: nat_add_distrib)
  then have g: "py_getitem raw (a + int j) = Inr (raw ! (nat a + j))"
    using Suc.prems by (simp add: py_getitem_def)
  have d: "drop (nat a + j) raw = raw ! (nat a + j) # drop (nat a + Suc j) raw"
    using Suc.prems by (simp add: Cons_nth_drop_Suc)
  show ?case unfolding upt_shift using Suc.IH[of "Suc j" "acc @ [raw ! (nat a + j)]"] Suc.prems g d
    by simp
qed

lemma byte_digits_range:
  assumes "0 \<le> a" "b = a + 8" "nat a + 8 \<le> length raw"
  shows "byte_digits raw (py_range a b) acc = Inr (acc @ take 8 (drop (nat a) raw))"
  using byte_digits_take[of a 0 8 raw acc] assms by (simp add: py_range_def)

lemma length_digits: "length (concat (map (\<lambda>k. str_digit (rand k)) xs)) = length xs"
  by (induction xs) (simp_all add: str_digit_def)

lemma take_drop_chunk: "take m (drop k xs) @ drop (k + m) xs = drop k xs"
  by (metis add.commute append_take_drop_id drop_drop)

lemma range8: "py_range 0 8 = [0, 1, 2, 3, 4, 5, 6, 7]"
  by (simp add: py_range_def upt_rec)

lemma upt8: "[0..<8] = [0, 1, 2, 3, 4, 5, 6, 7]"
  by (simp add: upt_rec)

lemma byte_loop_64:
  assumes "length raw = 64"
  shows "byte_loop raw (py_range 0 (bits div 8)) '''' =
     Inr ('', '' @ join '', '' (map (\<lambda>i. ''0b_'' @ take 8 (drop (64 - 8 * (i + 1)) raw)) [0..<8]))"
proof -
  have "byte_loop raw [0, 1, 2, 3, 4, 5, 6, 7] [] =
     Inr ('', '' @ join '', '' (map (\<lambda>i. ''0b_'' @ take 8 (drop (64 - 8 * (i + 1)) raw)) [0..<8]))"
    using assms by (simp add: bits_def upt8 byte_digits_range)
  moreover have "py_range 0 (bits div 8) = [0, 1, 2, 3, 4, 5, 6, 7]"
    by (simp add: bits_def range8)
  ultimately show ?thesis by simp
qed

lemma chunks_64:
  assumes "length (d :: 'a list) = 64"
  shows "concat (rev (map (\<lambda>i. take 8 (drop (64 - 8 * (i + 1)) d)) [0..<8])) = d"
proof -
  have "concat (rev (map (\<lambda>i. take 8 (drop (64 - 8 * (i + 1)) d)) [0..<8]))
      = take 8 (drop 0 d) @ take 8 (drop 8 d) @ take 8 (drop 16 d) @ take 8 (drop 24 d) @
        take 8 (drop 32 d) @ take 8 (drop 40 d) @ take 8 (drop 48 d) @ take 8 (drop 56 d)"
    by (simp add: upt8)
  also have "take 8 (drop 56 d) = drop 56 d" using assms by simp
  also have "take 8 (drop 48 d) @ drop 56 d = drop 48 d" using take_drop_chunk[of 8 48 d] by simp
  also have "take 8 (drop 40 d) @ drop 48 d = drop 40 d" using take_drop_chunk[of 8 40 d] by simp
  also have "take 8 (drop 32 d) @ drop 40 d = drop 32 d" using take_drop_chunk[of 8 32 d] by simp
  also have "take 8 (drop 24 d) @ drop 32 d = drop 24 d" using take_drop_chunk[of 8 24 d] by simp
  also have "take 8 (drop 16 d) @ drop 24 d = drop 16 d" using take_drop_chunk[of 8 16 d] by simp
  also have "take 8 (drop 8 d) @ drop 16 d = drop 8 d" using take_drop_chunk[of 8 8 d] by simp
  also have "take 8 (drop 0 d) @ drop 8 d = d" using take_drop_chunk[of 8 0 d] by simp
  finally show ?thesis .
qed

text \<open>
  C10.  Whatever digits are drawn, the run prints a literal and a byte array such that:
  the literal starts with \<open>0b\<close> and, without that prefix and the underscores, is the
  sequence of the 64 digits drawn; the array is eight byte strings, each \<open>0b_\<close> followed by
  eight digits, separated by a comma and a space; the \<open>i\<close>-th of them (from 0) holds the
  digits \<open>64 - 8 * (i + 1)\<close> to \<open>64 - 8 * (i + 1) + 7\<close> of the literal; and the digits of the
  bytes, taken from the last byte to the first, are the digits of the literal.
\<close>

theorem generator_bytes_reverse_order:
  "\<exists>lit arr. generator rand = Inr (lit, arr) \<and> length (drawn rand) = 64 \<and>
     prefix ''0b'' lit \<and> literal_digits lit = drawn rand \<and>
     arr = join '', '' (map (\<lambda>i. ''0b_'' @ take 8 (drop (64 - 8 * (i + 1)) (drawn rand))) [0..<8]) \<and>
     concat (rev (map (\<lambda>i. take 8 (drop (64 - 8 * (i + 1)) (drawn rand))) [0..<8])) = drawn rand"
proof -
  obtain n raw uns where dl: "digit_loop rand (py_range 0 bits) (0, '''', ''0b'') = (n, raw, uns)"
    by (metis prod_cases3)
  have len: "length (py_range 0 bits) = 64" by (simp add: py_range_def bits_def)
  from digit_loop_raw[OF dl] len have raw: "raw = drawn rand"
    and fl: "filter (\<lambda>c. c \<noteq> CHR ''_'') uns = ''0b'' @ drawn rand"
    and tk: "take (length ''0b'') uns = ''0b''"
    by (simp_all add: drawn_def bits_def)
  have l64: "length (drawn rand) = 64" by (simp add: drawn_def length_digits bits_def)
  have pre: "prefix ''0b'' uns" using tk by (metis take_is_prefix)
  have "uns = ''0b'' @ drop (length ''0b'') uns"
    using tk by (metis append_take_drop_id)
  then have "filter (\<lambda>c. c \<noteq> CHR ''_'') (''0b'' @ drop (length ''0b'') uns) = ''0b'' @ drawn rand"
    using fl by simp
  then have ld: "literal_digits uns = drawn rand"
    using pre by (simp add: literal_digits_def py_removeprefix_def)
  have gen: "generator rand = Inr (uns, join '', '' (map (\<lambda>i. ''0b_'' @ take 8 (drop (64 - 8 * (i + 1)) (drawn rand))) [0..<8]))"
    using dl byte_loop_64[of raw] l64 raw by (simp add: generator_def py_removeprefix_def)
  show ?thesis using gen l64 pre ld chunks_64[OF l64] by blast
qed

section \<open>Facts about the string operations\<close>

lemma find_from_shift: "find_from t s n = map_option (\<lambda>i. i + n) (find_from t s 0)"
proof (induction s arbitrary: n)
  case Nil
  then show ?case by simp
next
  case (Cons c cs)
  show ?case using Cons.IH[of "Suc n"] Cons.IH[of "Suc 0"]
    by (simp add: option.map_comp comp_def)
qed

lemma find_from_None_iff: "find_from t s n = None \<longleftrightarrow> \<not> sublist t s"
  by (induction s arbitrary: n) (auto simp: sublist_Cons_right)

lemma prefix_before_occurrence:
  assumes "t \<noteq> []" "prefix t (x # a @ t @ b)"
  shows "sublist t (x # a @ butlast t)"
proof -
  have len: "length t \<le> length (x # a @ butlast t)" by simp
  have "t @ b = butlast t @ (last t # b)"
    using assms(1) by (metis append_butlast_last_id append_Cons append_Nil append_assoc)
  then have "x # a @ t @ b = (x # a @ butlast t) @ (last t # b)"
    by simp
  then have "prefix (x # a @ butlast t) (x # a @ t @ b)"
    by (metis prefixI)
  with assms(2) len have "prefix t (x # a @ butlast t)"
    by (metis prefix_length_prefix)
  then show ?thesis by (rule prefix_imp_sublist)
qed

lemma find_from_first:
  assumes "t \<noteq> []" "\<not> sublist t (a @ butlast t)"
  shows "find_from t (a @ t @ b) n = Some (n + length a)"
  using assms(2)
proof (induction a arbitrary: n)
  case Nil
  obtain c cs where t: "t = c # cs" using assms(1) by (cases t) auto
  show ?case by (simp add: t)
next
  case (Cons x a)
  have np: "\<not> prefix t (x # a @ t @ b)"
    using prefix_before_occurrence[OF assms(1)] Cons.prems by auto
  have "\<not> sublist t (a @ butlast t)"
    using Cons.prems by (simp add: sublist_Cons_right)
  from Cons.IH[OF this, of "Suc n"] np show ?case by simp
qed







section \<open>Reading the header file\<close>

lemma py_index_absent: "py_index s t = Inl ValueError \<longleftrightarrow> \<not> sublist t s"
  using find_from_None_iff[of t s 0] by (auto simp: py_index_def split: option.splits)

lemma py_index_cases: "py_index s t = Inl ValueError \<or> (\<exists>i. py_index s t = Inr i)"
  by (simp add: py_index_def split: option.splits)

lemma py_index_first:
  assumes "t \<noteq> []" "\<not> sublist t (a @ butlast t)"
  shows "py_index (a @ t @ b) t = Inr (int (length a))"
  using find_from_first[OF assms, of b 0] by (simp add: py_index_def)

lemma extract_block_missing:
  "extract_block content start_tag end_tag = Inl ValueError
     \<longleftrightarrow> \<not> both_present start_tag end_tag content"
  using py_index_cases[of content start_tag] py_index_cases[of content end_tag]
    py_index_absent[of content start_tag] py_index_absent[of content end_tag]
  by (auto simp: extract_block_def both_present_def)

lemma extract_block_cases:
  "extract_block content start_tag end_tag = Inl ValueError
     \<or> (\<exists>body. extract_block content start_tag end_tag = Inr body)"
  using py_index_cases[of content start_tag] py_index_cases[of content end_tag]
  by (auto simp: extract_block_def)

lemma slice_middle:
  "py_slice (a @ body @ c) (int (length a)) (int (length a + length body)) = body"
  by (simp add: py_slice_def clamp_bound_def Let_def)

lemma extract_block_body:
  assumes "start_tag \<noteq> []" "end_tag \<noteq> []" "first_marks start_tag end_tag before body"
  shows "extract_block (block start_tag end_tag before body after) start_tag end_tag = Inr body"
proof -
  let ?content = "block start_tag end_tag before body after"
  have "?content = before @ start_tag @ (''\<newline>'' @ body @ ''\<newline>'' @ end_tag @ after)"
    by (simp add: block_def)
  then have i: "py_index ?content start_tag = Inr (int (length before))"
    using py_index_first[OF assms(1), of before] assms(3) by (simp add: first_marks_def)
  have "?content = (before @ start_tag @ ''\<newline>'' @ body @ ''\<newline>'') @ end_tag @ after"
    by (simp add: block_def)
  then have j: "py_index ?content end_tag
      = Inr (int (length (before @ start_tag @ ''\<newline>'' @ body @ ''\<newline>'')))"
    using py_index_first[OF assms(2), of "before @ start_tag @ ''\<newline>'' @ body @ ''\<newline>''" after]
      assms(3) by (simp add: first_marks_def)
  have "?content = (before @ start_tag @ ''\<newline>'') @ body @ (''\<newline>'' @ end_tag @ after)"
    by (simp add: block_def)
  then have "py_slice ?content (int (length (before @ start_tag @ ''\<newline>'')))
      (int (length (before @ start_tag @ ''\<newline>'') + length body)) = body"
    using slice_middle[of "before @ start_tag @ ''\<newline>''" body "''\<newline>'' @ end_tag @ after"]
    by simp
  moreover have "int (length before) + int (length start_tag) + 1
      = int (length (before @ start_tag @ ''\<newline>''))"
    by simp
  moreover have "int (length (before @ start_tag @ ''\<newline>'' @ body @ ''\<newline>'')) - 1
      = int (length (before @ start_tag @ ''\<newline>'') + length body)"
    by simp
  ultimately have sl: "py_slice ?content (int (length before) + int (length start_tag) + 1)
      (int (length (before @ start_tag @ ''\<newline>'' @ body @ ''\<newline>'')) - 1) = body"
    by (simp only:)
  show ?thesis
    unfolding extract_block_def i j by (simp only: sum.case sl)
qed

lemma header_tags_not_empty:
  "HEADER_START_TAG \<noteq> []" "HEADER_END_TAG \<noteq> []" "FOOTER_START_TAG \<noteq> []" "FOOTER_END_TAG \<noteq> []"
  by (simp_all add: HEADER_START_TAG_def HEADER_END_TAG_def FOOTER_START_TAG_def FOOTER_END_TAG_def)

text \<open>
  C5.  For a header file with content \<open>content\<close>, read when the command line gave \<open>header\<close>
  and \<open>footer\<close>:
  \<^item> if the header block stands in the file on marker lines of its own, its text being \<open>h\<close>,
    then parsing succeeds and the header is \<open>h\<close>, whatever the footer tags do;
  \<^item> likewise for the footer block and its text \<open>f\<close>;
  \<^item> a side whose two tags are not both in the file keeps the value it had, and this is no
    error as long as the other side has both its tags;
  \<^item> parsing ends the run with the message that there is neither header nor footer exactly
    when neither side has both its tags.
\<close>

theorem header_file_blocks:
  "(content = block HEADER_START_TAG HEADER_END_TAG before h after
      \<and> first_marks HEADER_START_TAG HEADER_END_TAG before h
      \<longrightarrow> (\<exists>f s. parse_header_file content (header, footer, - 1) = Inr (h, f, s)))
   \<and> (content = block FOOTER_START_TAG FOOTER_END_TAG before' f after'
      \<and> first_marks FOOTER_START_TAG FOOTER_END_TAG before' f
      \<longrightarrow> (\<exists>h s. parse_header_file content (header, footer, - 1) = Inr (h, f, s)))
   \<and> (\<not> both_present HEADER_START_TAG HEADER_END_TAG content
      \<and> both_present FOOTER_START_TAG FOOTER_END_TAG content
      \<longrightarrow> (\<exists>f. parse_header_file content (header, footer, - 1) = Inr (header, f, HAS_FOOTER)))
   \<and> (both_present HEADER_START_TAG HEADER_END_TAG content
      \<and> \<not> both_present FOOTER_START_TAG FOOTER_END_TAG content
      \<longrightarrow> (\<exists>h. parse_header_file content (header, footer, - 1) = Inr (h, footer, HAS_HEADER)))
   \<and> (parse_header_file content (header, footer, - 1) = Inl NoHeaderOrFooter
      \<longleftrightarrow> \<not> both_present HEADER_START_TAG HEADER_END_TAG content
          \<and> \<not> both_present FOOTER_START_TAG FOOTER_END_TAG content)"
proof -
  let ?hx = "extract_block content HEADER_START_TAG HEADER_END_TAG"
  let ?fx = "extract_block content FOOTER_START_TAG FOOTER_END_TAG"
  let ?r = "parse_header_file content (header, footer, - 1)"
  have hm: "?hx = Inl ValueError \<longleftrightarrow> \<not> both_present HEADER_START_TAG HEADER_END_TAG content"
    by (rule extract_block_missing)
  have fm: "?fx = Inl ValueError \<longleftrightarrow> \<not> both_present FOOTER_START_TAG FOOTER_END_TAG content"
    by (rule extract_block_missing)
  have hc: "?hx = Inl ValueError \<or> (\<exists>body. ?hx = Inr body)"
    by (rule extract_block_cases)
  have fc: "?fx = Inl ValueError \<or> (\<exists>body. ?fx = Inr body)"
    by (rule extract_block_cases)
  have both: "\<And>a b. ?hx = Inr a \<Longrightarrow> ?fx = Inr b \<Longrightarrow> ?r = Inr (a, b, HAS_HEADER_AND_FOOTER)"
    by (simp add: parse_header_file_def)
  have only_h: "\<And>a. ?hx = Inr a \<Longrightarrow> ?fx = Inl ValueError \<Longrightarrow> ?r = Inr (a, footer, HAS_HEADER)"
    by (simp add: parse_header_file_def HAS_FOOTER_def)
  have only_f: "\<And>b. ?hx = Inl ValueError \<Longrightarrow> ?fx = Inr b \<Longrightarrow> ?r = Inr (header, b, HAS_FOOTER)"
    by (simp add: parse_header_file_def HAS_FOOTER_def)
  have none: "?hx = Inl ValueError \<Longrightarrow> ?fx = Inl ValueError \<Longrightarrow> ?r = Inl NoHeaderOrFooter"
    by (simp add: parse_header_file_def)
  have c1: "content = block HEADER_START_TAG HEADER_END_TAG before h after
      \<and> first_marks HEADER_START_TAG HEADER_END_TAG before h
      \<longrightarrow> (\<exists>f s. ?r = Inr (h, f, s))"
  proof
    assume a: "content = block HEADER_START_TAG HEADER_END_TAG before h after
      \<and> first_marks HEADER_START_TAG HEADER_END_TAG before h"
    then have "?hx = Inr h"
      using extract_block_body[OF header_tags_not_empty(1,2), of before h after] by simp
    then show "\<exists>f s. ?r = Inr (h, f, s)"
      using fc both only_h by blast
  qed
  have c2: "content = block FOOTER_START_TAG FOOTER_END_TAG before' f after'
      \<and> first_marks FOOTER_START_TAG FOOTER_END_TAG before' f
      \<longrightarrow> (\<exists>h s. ?r = Inr (h, f, s))"
  proof
    assume a: "content = block FOOTER_START_TAG FOOTER_END_TAG before' f after'
      \<and> first_marks FOOTER_START_TAG FOOTER_END_TAG before' f"
    then have "?fx = Inr f"
      using extract_block_body[OF header_tags_not_empty(3,4), of before' f after'] by simp
    then show "\<exists>h s. ?r = Inr (h, f, s)"
      using hc both only_f by blast
  qed
  have c3: "\<not> both_present HEADER_START_TAG HEADER_END_TAG content
      \<and> both_present FOOTER_START_TAG FOOTER_END_TAG content
      \<longrightarrow> (\<exists>f. ?r = Inr (header, f, HAS_FOOTER))"
    using hm fm fc only_f by blast
  have c4: "both_present HEADER_START_TAG HEADER_END_TAG content
      \<and> \<not> both_present FOOTER_START_TAG FOOTER_END_TAG content
      \<longrightarrow> (\<exists>h. ?r = Inr (h, footer, HAS_HEADER))"
    using hm fm hc only_h by blast
  have c5: "?r = Inl NoHeaderOrFooter
      \<longleftrightarrow> \<not> both_present HEADER_START_TAG HEADER_END_TAG content
          \<and> \<not> both_present FOOTER_START_TAG FOOTER_END_TAG content"
  proof
    assume r: "?r = Inl NoHeaderOrFooter"
    show "\<not> both_present HEADER_START_TAG HEADER_END_TAG content
          \<and> \<not> both_present FOOTER_START_TAG FOOTER_END_TAG content"
      using r hm fm hc fc both only_h only_f by (metis Inl_Inr_False)
  next
    assume "\<not> both_present HEADER_START_TAG HEADER_END_TAG content
          \<and> \<not> both_present FOOTER_START_TAG FOOTER_END_TAG content"
    then show "?r = Inl NoHeaderOrFooter"
      using hm fm none by blast
  qed
  show ?thesis using c1 c2 c3 c4 c5 by (intro conjI)
qed

theorem header_file_blocks_witness:
  "(\<exists>f s. parse_header_file
        ''>>>HEADER_START<<<\<newline>line one\<newline>line two\<newline>>>>HEADER_END<<<\<newline>>>>FOOTER_START<<<\<newline>foot\<newline>>>>FOOTER_END<<<\<newline>''
        ('''', '''', - 1) = Inr (''line one\<newline>line two'', f, s))
   \<and> (\<exists>h s. parse_header_file
        ''>>>HEADER_START<<<\<newline>line one\<newline>line two\<newline>>>>HEADER_END<<<\<newline>>>>FOOTER_START<<<\<newline>foot\<newline>>>>FOOTER_END<<<\<newline>''
        ('''', '''', - 1) = Inr (h, ''foot'', s))
   \<and> (\<exists>f. parse_header_file ''>>>FOOTER_START<<<\<newline>foot\<newline>>>>FOOTER_END<<<\<newline>''
        (''Top'', '''', - 1) = Inr (''Top'', f, HAS_FOOTER))
   \<and> (\<exists>h. parse_header_file ''>>>HEADER_START<<<\<newline>head\<newline>>>>HEADER_END<<<\<newline>>>>FOOTER_START<<<''
        ('''', ''Bottom'', - 1) = Inr (h, ''Bottom'', HAS_HEADER))
   \<and> parse_header_file ''>>>HEADER_START<<<\<newline>no end tag\<newline>'' (''Top'', ''Bottom'', - 1)
        = Inl NoHeaderOrFooter"
proof -
  let ?both = "''>>>HEADER_START<<<\<newline>line one\<newline>line two\<newline>>>>HEADER_END<<<\<newline>>>>FOOTER_START<<<\<newline>foot\<newline>>>>FOOTER_END<<<\<newline>''"
  let ?only_footer = "''>>>FOOTER_START<<<\<newline>foot\<newline>>>>FOOTER_END<<<\<newline>''"
  let ?only_header = "''>>>HEADER_START<<<\<newline>head\<newline>>>>HEADER_END<<<\<newline>>>>FOOTER_START<<<''"
  let ?neither = "''>>>HEADER_START<<<\<newline>no end tag\<newline>''"
  have h1: "?both = block HEADER_START_TAG HEADER_END_TAG '''' ''line one\<newline>line two''
        ''\<newline>>>>FOOTER_START<<<\<newline>foot\<newline>>>>FOOTER_END<<<\<newline>''
      \<and> first_marks HEADER_START_TAG HEADER_END_TAG '''' ''line one\<newline>line two''"
    by (simp add: block_def first_marks_def HEADER_START_TAG_def HEADER_END_TAG_def
        sublist_Cons_right)
  have h2: "?both = block FOOTER_START_TAG FOOTER_END_TAG
        ''>>>HEADER_START<<<\<newline>line one\<newline>line two\<newline>>>>HEADER_END<<<\<newline>'' ''foot'' ''\<newline>''
      \<and> first_marks FOOTER_START_TAG FOOTER_END_TAG
        ''>>>HEADER_START<<<\<newline>line one\<newline>line two\<newline>>>>HEADER_END<<<\<newline>'' ''foot''"
    by (simp add: block_def first_marks_def FOOTER_START_TAG_def FOOTER_END_TAG_def
        sublist_Cons_right)
  have h3: "\<not> both_present HEADER_START_TAG HEADER_END_TAG ?only_footer
      \<and> both_present FOOTER_START_TAG FOOTER_END_TAG ?only_footer"
    by (simp add: both_present_def HEADER_START_TAG_def HEADER_END_TAG_def
        FOOTER_START_TAG_def FOOTER_END_TAG_def sublist_Cons_right)
  have h4: "both_present HEADER_START_TAG HEADER_END_TAG ?only_header
      \<and> \<not> both_present FOOTER_START_TAG FOOTER_END_TAG ?only_header"
    by (simp add: both_present_def HEADER_START_TAG_def HEADER_END_TAG_def
        FOOTER_START_TAG_def FOOTER_END_TAG_def sublist_Cons_right)
  have h5: "\<not> both_present HEADER_START_TAG HEADER_END_TAG ?neither
      \<and> \<not> both_present FOOTER_START_TAG FOOTER_END_TAG ?neither"
    by (simp add: both_present_def HEADER_START_TAG_def HEADER_END_TAG_def
        FOOTER_START_TAG_def FOOTER_END_TAG_def sublist_Cons_right)
  have a: "\<exists>f s. parse_header_file ?both ('''', '''', - 1) = Inr (''line one\<newline>line two'', f, s)"
    using h1 header_file_blocks[of ?both "''''" "''line one\<newline>line two''"
        "''\<newline>>>>FOOTER_START<<<\<newline>foot\<newline>>>>FOOTER_END<<<\<newline>''" "''''" "''''"]
    by blast
  have b: "\<exists>h s. parse_header_file ?both ('''', '''', - 1) = Inr (h, ''foot'', s)"
    using h2 header_file_blocks[of ?both _ _ _ "''''" "''''"
        "''>>>HEADER_START<<<\<newline>line one\<newline>line two\<newline>>>>HEADER_END<<<\<newline>''" "''foot''" "''\<newline>''"]
    by blast
  have c: "\<exists>f. parse_header_file ?only_footer (''Top'', '''', - 1) = Inr (''Top'', f, HAS_FOOTER)"
    using h3 header_file_blocks[of ?only_footer _ _ _ "''Top''" "''''"] by blast
  have d: "\<exists>h. parse_header_file ?only_header ('''', ''Bottom'', - 1) = Inr (h, ''Bottom'', HAS_HEADER)"
    using h4 header_file_blocks[of ?only_header _ _ _ "''''" "''Bottom''"] by blast
  have e: "parse_header_file ?neither (''Top'', ''Bottom'', - 1) = Inl NoHeaderOrFooter"
    using h5 header_file_blocks[of ?neither _ _ _ "''Top''" "''Bottom''"] by blast
  show ?thesis using a b c d e by (intro conjI)
qed

section \<open>Tag substitution\<close>






section \<open>Runs of FileHeaders.py on concrete inputs\<close>

lemmas loop_defs = apply_footers_and_headers_def process_file_def py_open_def tagged_def detect_def
  new_content_def report_and_close_def seek0_write_def write_at_start_def py_close_def py_print_def
  py_find_def py_strip_def is_space_def world_of_def accessible_def denied_def final_world_def
  text_of_def

lemmas main_defs = main_def scanned_def valid_def has_extension_def py_slice_from_def clamp_bound_def
  declined_def py_lower_def lower_char_def load_spec_def whitespace_policy_def empty_check_def
  py_isspace_def preview_def without_self_def basename_def path_join_def
  HAS_HEADER_def HAS_FOOTER_def HAS_HEADER_AND_FOOTER_def FILE_NAME_TAG_def FOLDER_NAME_TAG_def
  py_list_index_def py_getitem_def py_replace_def dirname_def command_line_def confirmed_in_def

lemmas parse_defs = parse_header_file_def extract_block_def py_index_def py_slice_def
  HEADER_START_TAG_def HEADER_END_TAG_def FOOTER_START_TAG_def FOOTER_END_TAG_def

text \<open>
  C1.  \<open>FileHeaders.py -t H -b F -e .txt\<close> in a directory holding \<open>a.txt\<close> with content
  \<open>body\<close>: the run reaches its end and reports \<open>Added Header/Footer to a.txt\<close>, and the file
  still holds \<open>body\<close>, not \<open>H\<newline>body\<newline>F\<close>.  Only with \<open>-o\<close> is anything written.
\<close>

theorem detection_disabled_writes_nothing:
  "fst (main (command_line False ''H'' ''F'' '''') (confirmed_in [''a.txt''])
          (world_of [(''a.txt'', accessible ''body'')])) = Finished
   \<and> text_of (snd (main (command_line False ''H'' ''F'' '''') (confirmed_in [''a.txt''])
          (world_of [(''a.txt'', accessible ''body'')]))) ''a.txt'' = Some ''body''
   \<and> printed (snd (main (command_line False ''H'' ''F'' '''') (confirmed_in [''a.txt''])
          (world_of [(''a.txt'', accessible ''body'')])))
       = [Listed ''a.txt'', Preview (Some ''H'') (Some ''F''), Added ''a.txt'']
   \<and> text_of (snd (main (command_line True ''H'' ''F'' '''') (confirmed_in [''a.txt''])
          (world_of [(''a.txt'', accessible ''body'')]))) ''a.txt'' = Some ''H\<newline>body\<newline>F''"
  by (simp add: main_defs loop_defs Let_def)

text \<open>
  C2.  \<open>FileHeaders.py -o -t H -e .txt\<close> (a header, no footer) on \<open>a.txt\<close> holding \<open>body\<close>:
  the first run writes \<open>H\<newline>body\<close>; a second run on that result writes
  \<open>H\<newline>H\<newline>body\<close>.  The computation of the new content, applied to its own output, does
  not return it unchanged.
\<close>

theorem second_run_duplicates_header:
  "text_of (snd (main (command_line True ''H'' '''' '''') (confirmed_in [''a.txt''])
          (world_of [(''a.txt'', accessible ''body'')]))) ''a.txt'' = Some ''H\<newline>body''
   \<and> text_of (snd (main (command_line True ''H'' '''' '''') (confirmed_in [''a.txt''])
          (world_of [(''a.txt'', accessible ''H\<newline>body'')]))) ''a.txt'' = Some ''H\<newline>H\<newline>body''
   \<and> new_content (detect ''body'' ''H\<newline>'' '''') ''body'' ''H\<newline>'' '''' = Some ''H\<newline>body''
   \<and> new_content (detect (py_strip ''H\<newline>body'') ''H\<newline>'' '''') (py_strip ''H\<newline>body'') ''H\<newline>'' ''''
       = Some ''H\<newline>H\<newline>body''"
  by (simp add: main_defs loop_defs Let_def)

text \<open>
  C3.  The content \<open>H\<newline>body\<close> is not empty, starts with the header \<open>H\<newline>\<close>, and the footer
  is empty; the chain of tests takes its last branch and writes the header again.  The
  content \<open>H\<newline>F\<newline>F\<close> starts with the header \<open>H\<newline>\<close> and ends with the footer \<open>\<newline>F\<close>, and
  the chain takes the branch that appends the footer.
\<close>

theorem header_present_not_detected:
  "prefix ''H\<newline>'' ''H\<newline>body'' \<and> suffix '''' ''H\<newline>body'' \<and> ''H\<newline>body'' \<noteq> ''''
   \<and> detect ''H\<newline>body'' ''H\<newline>'' '''' = NeitherPresent
   \<and> new_content (detect ''H\<newline>body'' ''H\<newline>'' '''') ''H\<newline>body'' ''H\<newline>'' '''' = Some ''H\<newline>H\<newline>body''
   \<and> prefix ''H\<newline>'' ''H\<newline>F\<newline>F'' \<and> suffix ''\<newline>F'' ''H\<newline>F\<newline>F''
   \<and> detect ''H\<newline>F\<newline>F'' ''H\<newline>'' ''\<newline>F'' = HeaderOnlyPresent"
  by (simp add: loop_defs suffix_def)

text \<open>
  C4.  \<open>FileHeaders.py -o -t Top -f hf.txt -e .txt\<close>, where \<open>hf.txt\<close> holds a footer block of
  one space and no header block: parsing keeps the header \<open>Top\<close> of the command line and
  records that the file gave no header; the whitespace policy then clears the footer and
  ends the run with the message that neither header nor footer was given, although the
  header is \<open>Top\<close>.
\<close>

theorem header_given_yet_rejected:
  "parse_header_file ''>>>FOOTER_START<<<\<newline> \<newline>>>>FOOTER_END<<<\<newline>'' (''Top'', '''', - 1)
      = Inr (''Top'', '' '', HAS_FOOTER)
   \<and> whitespace_policy False (''Top'', '' '', HAS_FOOTER) = Inl NoHeaderOrFooter
   \<and> fst (main (command_line True ''Top'' '''' ''hf.txt'') (confirmed_in [''a.txt'', ''hf.txt''])
          (world_of [(''a.txt'', accessible ''body''),
                     (''hf.txt'', accessible ''>>>FOOTER_START<<<\<newline> \<newline>>>>FOOTER_END<<<\<newline>'')])) = Exited
   \<and> printed (snd (main (command_line True ''Top'' '''' ''hf.txt'') (confirmed_in [''a.txt'', ''hf.txt''])
          (world_of [(''a.txt'', accessible ''body''),
                     (''hf.txt'', accessible ''>>>FOOTER_START<<<\<newline> \<newline>>>>FOOTER_END<<<\<newline>'')])))
       = [Listed ''a.txt'', Listed ''hf.txt'', NoHeaderOrFooter]"
  by (simp add: main_defs loop_defs parse_defs Let_def)

text \<open>
  C7.  \<open>FileHeaders.py -o -t H -e .txt\<close> on \<open>a.txt\<close> holding six line breaks and \<open>ab\<close>: the
  computed new content is \<open>H\<newline>ab\<close>, four characters; it is written over the first four of
  the eight characters of the file, and the last four stay.
\<close>

theorem shorter_text_leaves_residue:
  "text_of (snd (main (command_line True ''H'' '''' '''') (confirmed_in [''a.txt''])
          (world_of [(''a.txt'', accessible ''\<newline>\<newline>\<newline>\<newline>\<newline>\<newline>ab'')]))) ''a.txt''
     = Some ''H\<newline>ab\<newline>\<newline>ab''
   \<and> new_content (detect (py_strip ''\<newline>\<newline>\<newline>\<newline>\<newline>\<newline>ab'') ''H\<newline>'' '''')
         (py_strip ''\<newline>\<newline>\<newline>\<newline>\<newline>\<newline>ab'') ''H\<newline>'' '''' = Some ''H\<newline>ab''"
  by (simp add: main_defs loop_defs Let_def)

text \<open>
  C9.  \<open>FileHeaders.py -o -t H -b F -e .txt\<close> on \<open>a.txt\<close>, which already has header and footer,
  and \<open>b.txt\<close>, which has not: the run reaches its end, \<open>a.txt\<close> is unchanged, and its file
  object is still open, while \<open>b.txt\<close> has been processed after it and closed.
\<close>

theorem unchanged_file_stays_open:
  "fst (main (command_line True ''H'' ''F'' '''') (confirmed_in [''a.txt'', ''b.txt''])
          (world_of [(''a.txt'', accessible ''H\<newline>body\<newline>F''), (''b.txt'', accessible ''other'')])) = Finished
   \<and> handles (snd (main (command_line True ''H'' ''F'' '''') (confirmed_in [''a.txt'', ''b.txt''])
          (world_of [(''a.txt'', accessible ''H\<newline>body\<newline>F''), (''b.txt'', accessible ''other'')]))) = [''a.txt'']
   \<and> text_of (snd (main (command_line True ''H'' ''F'' '''') (confirmed_in [''a.txt'', ''b.txt''])
          (world_of [(''a.txt'', accessible ''H\<newline>body\<newline>F''), (''b.txt'', accessible ''other'')]))) ''a.txt''
       = Some ''H\<newline>body\<newline>F''
   \<and> text_of (snd (main (command_line True ''H'' ''F'' '''') (confirmed_in [''a.txt'', ''b.txt''])
          (world_of [(''a.txt'', accessible ''H\<newline>body\<newline>F''), (''b.txt'', accessible ''other'')]))) ''b.txt''
       = Some ''H\<newline>other\<newline>F''
   \<and> detect ''H\<newline>body\<newline>F'' ''H\<newline>'' ''\<newline>F'' = AlreadyPresent"
  by (simp add: main_defs loop_defs Let_def)

section \<open>Files that may not be opened\<close>

lemma process_file_denied:
  assumes "fs w p = Some e" "\<not> permitted e"
  shows "process_file files paths no_tags scan header footer p w
           = Inr (py_print (Skipped p) w)"
  using assms by (simp add: process_file_def py_open_def)

lemma process_file_keeps_denied:
  assumes "fs w p = Some e" "\<not> permitted e"
  shows "fs (final_world (process_file files paths no_tags scan header footer q w)) p
           = Some e"
proof (cases "q = p")
  case True
  then show ?thesis
    using process_file_denied[OF assms] assms(1) by (simp add: final_world_def py_print_def)
next
  case False
  then show ?thesis
    using assms(1)
    by (auto simp: process_file_def py_open_def final_world_def py_print_def report_and_close_def
          py_close_def seek0_write_def Let_def
        split: option.splits sum.splits error.splits prod.splits if_splits)
qed

lemma for_each_path_keeps_denied:
  assumes "\<not> permitted e"
  shows "fs w p = Some e \<Longrightarrow>
    fs (final_world (for_each_path
          (process_file files paths no_tags scan header footer) todo w)) p = Some e"
proof (induction todo arbitrary: w)
  case Nil
  then show ?case by (simp add: final_world_def)
next
  case (Cons q todo)
  let ?body = "process_file files paths no_tags scan header footer"
  have kept: "fs (final_world (?body q w)) p = Some e"
    using process_file_keeps_denied[OF Cons.prems assms] .
  show ?case
  proof (cases "?body q w")
    case (Inl failure)
    then show ?thesis using kept by (simp add: final_world_def)
  next
    case (Inr w')
    then have "fs w' p = Some e" using kept by (simp add: final_world_def)
    from Cons.IH[OF this] Inr show ?thesis by simp
  qed
qed

lemma for_each_path_append:
  "for_each_path body (xs @ ys) w =
     (case for_each_path body xs w of Inl failure \<Rightarrow> Inl failure | Inr w' \<Rightarrow> for_each_path body ys w')"
  by (induction xs arbitrary: w) (auto split: sum.splits)

text \<open>
  C8.  Let \<open>p\<close> be a file that may not be opened, anywhere in the batch, and let the files
  before it be processed without an uncaught exception, ending in the world \<open>w1\<close>.  Then \<open>p\<close>
  is still as it was; its turn does not raise: it prints the report for \<open>p\<close> and changes
  nothing else; the batch goes on with the files after \<open>p\<close> exactly as it would from
  \<open>w1\<close> with that report printed; and whatever happens to the later files, \<open>p\<close> holds its
  original content in the world the run ends in.
\<close>

theorem permission_error_skips_file:
  assumes "fs w p = Some e" and "\<not> permitted e"
    and "paths = before @ p # after"
    and "for_each_path (process_file files paths no_tags scan header footer) before w
           = Inr w1"
  shows "fs w1 p = Some e
    \<and> process_file files paths no_tags scan header footer p w1
        = Inr (w1\<lparr>printed := printed w1 @ [Skipped p]\<rparr>)
    \<and> apply_footers_and_headers files paths no_tags scan header footer w
        = for_each_path (process_file files paths no_tags scan header footer) after
            (w1\<lparr>printed := printed w1 @ [Skipped p]\<rparr>)
    \<and> fs (final_world (apply_footers_and_headers files paths no_tags scan
              header footer w)) p = Some e"
proof -
  let ?body = "process_file files paths no_tags scan header footer"
  have "fs (final_world (for_each_path ?body before w)) p = Some e"
    using for_each_path_keeps_denied[OF assms(2,1)] .
  then have kept: "fs w1 p = Some e"
    using assms(4) by (simp add: final_world_def)
  have turn: "?body p w1 = Inr (w1\<lparr>printed := printed w1 @ [Skipped p]\<rparr>)"
    using process_file_denied[OF kept assms(2)] by (simp add: py_print_def)
  have "for_each_path ?body (before @ p # after) w
          = for_each_path ?body after (w1\<lparr>printed := printed w1 @ [Skipped p]\<rparr>)"
    using assms(4) turn by (simp add: for_each_path_append)
  then have goes_on: "apply_footers_and_headers files paths no_tags scan header footer w
          = for_each_path ?body after (w1\<lparr>printed := printed w1 @ [Skipped p]\<rparr>)"
    using assms(3) by (simp add: apply_footers_and_headers_def)
  have "fs (final_world (for_each_path ?body paths w)) p = Some e"
    using for_each_path_keeps_denied[OF assms(2,1)] .
  then have at_end: "fs (final_world (apply_footers_and_headers files paths no_tags
      scan header footer w)) p = Some e"
    by (simp add: apply_footers_and_headers_def)
  show ?thesis using kept turn goes_on at_end by blast
qed

theorem permission_error_skips_file_witness:
  "text_of (final_world (apply_footers_and_headers [''a.txt'', ''b.txt'', ''c.txt'']
       [''a.txt'', ''b.txt'', ''c.txt''] False True ''H\<newline>'' ''\<newline>F''
       (world_of [(''a.txt'', accessible ''one''), (''b.txt'', denied ''two''),
                  (''c.txt'', accessible ''three'')]))) ''b.txt'' = Some ''two''
   \<and> apply_footers_and_headers [''a.txt'', ''b.txt'', ''c.txt'']
       [''a.txt'', ''b.txt'', ''c.txt''] False True ''H\<newline>'' ''\<newline>F''
       (world_of [(''a.txt'', accessible ''one''), (''b.txt'', denied ''two''),
                  (''c.txt'', accessible ''three'')])
     = Inr \<lparr>fs = [''a.txt'' \<mapsto> accessible ''H\<newline>one\<newline>F'', ''b.txt'' \<mapsto> denied ''two'',
                  ''c.txt'' \<mapsto> accessible ''H\<newline>three\<newline>F''],
            handles = [], printed = [Added ''a.txt'', Skipped ''b.txt'', Added ''c.txt'']\<rparr>"
proof -
  let ?w = "world_of [(''a.txt'', accessible ''one''), (''b.txt'', denied ''two''),
                  (''c.txt'', accessible ''three'')]"
  let ?paths = "[''a.txt'', ''b.txt'', ''c.txt'']"
  let ?w1 = "\<lparr>fs = [''a.txt'' \<mapsto> accessible ''H\<newline>one\<newline>F'', ''b.txt'' \<mapsto> denied ''two'',
                  ''c.txt'' \<mapsto> accessible ''three''],
            handles = [], printed = [Added ''a.txt'']\<rparr>"
  have h1: "fs ?w ''b.txt'' = Some (denied ''two'')"
    by (simp add: world_of_def)
  have h2: "\<not> permitted (denied ''two'')"
    by (simp add: denied_def)
  have h3: "?paths = [''a.txt''] @ ''b.txt'' # [''c.txt'']"
    by simp
  have h4: "for_each_path (process_file ?paths ?paths False True ''H\<newline>'' ''\<newline>F'') [''a.txt''] ?w
      = Inr ?w1"
    by (simp add: loop_defs main_defs fun_upd_twist)
  note t = permission_error_skips_file[OF h1 h2 h3 h4]
  from t have "fs (final_world (apply_footers_and_headers ?paths ?paths False True
      ''H\<newline>'' ''\<newline>F'' ?w)) ''b.txt'' = Some (denied ''two'')"
    by blast
  then have a: "text_of (final_world (apply_footers_and_headers ?paths ?paths False True
      ''H\<newline>'' ''\<newline>F'' ?w)) ''b.txt'' = Some ''two''"
    by (simp add: text_of_def denied_def)
  from t have goes_on: "apply_footers_and_headers ?paths ?paths False True ''H\<newline>'' ''\<newline>F'' ?w
     = for_each_path (process_file ?paths ?paths False True ''H\<newline>'' ''\<newline>F'') [''c.txt'']
        (?w1\<lparr>printed := printed ?w1 @ [Skipped ''b.txt'']\<rparr>)"
    by blast
  have "for_each_path (process_file ?paths ?paths False True ''H\<newline>'' ''\<newline>F'') [''c.txt'']
      (?w1\<lparr>printed := printed ?w1 @ [Skipped ''b.txt'']\<rparr>)
     = Inr \<lparr>fs = [''a.txt'' \<mapsto> accessible ''H\<newline>one\<newline>F'', ''b.txt'' \<mapsto> denied ''two'',
                  ''c.txt'' \<mapsto> accessible ''H\<newline>three\<newline>F''],
            handles = [], printed = [Added ''a.txt'', Skipped ''b.txt'', Added ''c.txt'']\<rparr>"
    by (simp add: loop_defs main_defs)
  with goes_on have b: "apply_footers_and_headers ?paths ?paths False True ''H\<newline>'' ''\<newline>F'' ?w
     = Inr \<lparr>fs = [''a.txt'' \<mapsto> accessible ''H\<newline>one\<newline>F'', ''b.txt'' \<mapsto> denied ''two'',
                  ''c.txt'' \<mapsto> accessible ''H\<newline>three\<newline>F''],
            handles = [], printed = [Added ''a.txt'', Skipped ''b.txt'', Added ''c.txt'']\<rparr>"
    by (rule trans)
  show ?thesis using a b by blast
qed

end
